theory Spec2Isabelle
  imports Main "HOL-Library.Word"
begin

unbundle bit_operations_syntax

section \<open>Register transport: the simulation backend (xaie\_sim.c)\<close>

text \<open>
  The backend keeps one field, the base address of the array. The simulator's entry
  point \<open>ess_Read32\<close> is external: it is a parameter of the model, a function of the
  number of reads issued so far and of the address, so that a register whose value changes
  between two polls is expressible. \<open>XAIELIB_SUCCESS\<close> and \<open>XAIELIB_FAILURE\<close> are the
  two values \<open>XAie_SimIO_MaskPoll\<close> returns; their numeric encoding is declared in
  a header outside the sources and plays no role.
\<close>

type_synonym u32 = "32 word"
type_synonym u64 = "64 word"

record XAie_SimIO =
  BaseAddr :: u64

datatype poll_ret = XAIELIB_SUCCESS | XAIELIB_FAILURE

text \<open>What a poll did: its return value, the reads it issued, the \<open>usleep(1)\<close> calls it made.\<close>

record poll_run =
  Ret :: poll_ret
  Reads :: nat
  Sleeps :: nat

definition XAie_SimIO_Read32 :: "(nat \<Rightarrow> u64 \<Rightarrow> u32) \<Rightarrow> nat \<Rightarrow> XAie_SimIO \<Rightarrow> u64 \<Rightarrow> u32" where
  "XAie_SimIO_Read32 ess_Read32 k IOInst RegOff = ess_Read32 k (BaseAddr IOInst + RegOff)"

text \<open>
  The \<open>while (TimeOutUs > 0U)\<close> loop. \<open>k\<close> is the number of reads issued before this
  iteration, \<open>sl\<close> the number of sleeps. The \<open>break\<close> leaves with success; the loop
  condition failing leaves with the initial \<open>XAIELIB_FAILURE\<close>.
\<close>

function MaskPoll_loop ::
  "(nat \<Rightarrow> u64 \<Rightarrow> u32) \<Rightarrow> XAie_SimIO \<Rightarrow> u64 \<Rightarrow> u32 \<Rightarrow> u32 \<Rightarrow> u32 \<Rightarrow> nat \<Rightarrow> nat \<Rightarrow> poll_run" where
  "MaskPoll_loop ess_Read32 IOInst RegOff Mask Val TimeOutUs k sl =
     (if TimeOutUs > 0 then
        (if (XAie_SimIO_Read32 ess_Read32 k IOInst RegOff AND Mask) = Val
         then \<lparr>Ret = XAIELIB_SUCCESS, Reads = Suc k, Sleeps = sl\<rparr>
         else MaskPoll_loop ess_Read32 IOInst RegOff Mask Val (TimeOutUs - 1) (Suc k) (Suc sl))
      else \<lparr>Ret = XAIELIB_FAILURE, Reads = k, Sleeps = sl\<rparr>)"
  by pat_completeness auto
termination
proof (relation "measure (\<lambda>(ess, IOInst, RegOff, Mask, Val, TimeOutUs, k, sl). unat TimeOutUs)")
  show "wf (measure (\<lambda>(ess, IOInst, RegOff, Mask, Val, TimeOutUs, k, sl). unat (TimeOutUs :: u32)))"
    by simp
next
  fix ess :: "nat \<Rightarrow> u64 \<Rightarrow> u32"
  fix IOInst :: XAie_SimIO
  fix RegOff :: u64
  fix Mask Val TimeOutUs :: u32
  fix k sl :: nat
  assume "0 < TimeOutUs"
  then have "TimeOutUs \<noteq> 0"
    by (simp add: word_neq_0_conv)
  then have "unat (TimeOutUs - 1) < unat TimeOutUs"
    by (simp add: unat_minus_one unat_gt_0)
  then show "((ess, IOInst, RegOff, Mask, Val, TimeOutUs - 1, Suc k, Suc sl),
              (ess, IOInst, RegOff, Mask, Val, TimeOutUs, k, sl))
             \<in> measure (\<lambda>(ess, IOInst, RegOff, Mask, Val, TimeOutUs, k, sl). unat TimeOutUs)"
    by simp
qed

text \<open>
  \<open>XAie_SimIO_MaskPoll\<close> of the simulator build (under \<open>__AIESIM__\<close>): a timeout of 0 is
  raised to 1, then the loop runs. The build without the simulator replaces the body by
  \<open>return XAIELIB_FAILURE\<close> and reads nothing; it is not the function modelled here.
\<close>

definition XAie_SimIO_MaskPoll ::
  "(nat \<Rightarrow> u64 \<Rightarrow> u32) \<Rightarrow> XAie_SimIO \<Rightarrow> u64 \<Rightarrow> u32 \<Rightarrow> u32 \<Rightarrow> u32 \<Rightarrow> poll_run" where
  "XAie_SimIO_MaskPoll ess_Read32 IOInst RegOff Mask Val TimeOutUs =
     MaskPoll_loop ess_Read32 IOInst RegOff Mask Val
       (if TimeOutUs = 0 then TimeOutUs + 1 else TimeOutUs) 0 0"

declare MaskPoll_loop.simps [simp del]

section \<open>Combo event resource (xaiefal-events.hpp)\<close>

subsection \<open>Data\<close>

text \<open>
  The driver's types are declared in headers outside the sources. \<open>AieRC\<close> keeps the three
  codes the class names and one constructor for every other code of the enum;
  \<open>XAie_ModuleType\<close> likewise keeps the three modules the class names. Rows and columns
  are small unsigned numbers that C promotes to \<open>int\<close> in arithmetic; events and combo
  operations are enum values, kept as numbers. \<open>RscId\<close> is unsigned.
\<close>

datatype AieRC = XAIE_OK | XAIE_ERR | XAIE_INVALID_ARGS | XAIE_RC_OTHER nat

datatype XAie_ModuleType = XAIE_MEM_MOD | XAIE_CORE_MOD | XAIE_PL_MOD | XAIE_MOD_OTHER nat

type_synonym XAie_Events = nat
type_synonym XAie_EventComboOps = nat
type_synonym XAie_EventComboId = int

record XAie_LocType =
  Row :: nat
  Col :: nat

record XAie_UserRsc =
  Loc :: XAie_LocType
  Mod :: XAie_ModuleType
  RscId :: nat

text \<open>
  The device handle holds the three bitmaps of combo slots. A bitmap is kept as the set of
  the positions whose bit is set; the word array behind it and its capacity are declared
  outside the sources.
\<close>

record XAieDevHandle =
  XAieComboCoreBits :: "nat set"
  XAieComboMemBits :: "nat set"
  XAieComboShimBits :: "nat set"

record XAieRscState =
  Initialized :: bool
  Configured :: bool
  Reserved :: bool

text \<open>
  The object: \<open>this_Loc\<close>, \<open>this_Mod\<close>, \<open>this_State\<close> and \<open>this_Rsc\<close> are the members
  \<open>Loc\<close>, \<open>Mod\<close>, \<open>State\<close> and \<open>Rsc\<close> inherited from the base class (renamed, since the
  fields of \<open>XAie_UserRsc\<close> hold the short names).
\<close>

record XAieComboEvent =
  this_Loc :: XAie_LocType
  this_Mod :: XAie_ModuleType
  this_State :: XAieRscState
  this_Rsc :: XAie_UserRsc
  vEvents :: "XAie_Events list"
  vOps :: "XAie_EventComboOps list"
  vRscs :: "XAie_UserRsc list"

text \<open>
  The combiner ids are the enumerators of \<open>XAie_EventComboId\<close>, numbered from 0 in the
  order of their names; \<open>_start\<close> compares them with \<open><\<close> and adds to them.
\<close>

definition XAIE_EVENT_COMBO0 :: XAie_EventComboId where "XAIE_EVENT_COMBO0 = 0"
definition XAIE_EVENT_COMBO1 :: XAie_EventComboId where "XAIE_EVENT_COMBO1 = 1"
definition XAIE_EVENT_COMBO2 :: XAie_EventComboId where "XAIE_EVENT_COMBO2 = 2"

subsection \<open>Bitmap helpers\<close>

text \<open>
  Modelled from the spec: \<open>XAieRsc::alloc_rsc_bit\<close> is defined in xaiefal-rsc-base.hpp,
  which is not among the sources. The spec: acquire scans \<open>count\<close> consecutive bits starting
  at \<open>base\<close> for the first unset bit, sets it and returns its absolute position; it fails
  with a negative result if no bit in the range is free, with no side effect on the bitmap.
  \<open>first_free_bit\<close> is the scan, \<open>alloc_rsc_bit\<close> returns the bitmap and the result.
\<close>

fun first_free_bit :: "nat set \<Rightarrow> nat \<Rightarrow> nat \<Rightarrow> nat option" where
  "first_free_bit bits p 0 = None"
| "first_free_bit bits p (Suc n) = (if p \<notin> bits then Some p else first_free_bit bits (Suc p) n)"

definition alloc_rsc_bit :: "nat set \<Rightarrow> nat \<Rightarrow> nat \<Rightarrow> nat set \<times> int" where
  "alloc_rsc_bit bits sbit bits2check =
     (case first_free_bit bits sbit bits2check of
        None \<Rightarrow> (bits, - 1)
      | Some p \<Rightarrow> (insert p bits, int p))"

text \<open>
  Modelled from the spec: \<open>XAieRsc::clear_rsc_bit\<close>, of the same missing header. The spec:
  release clears exactly one bit.
\<close>

definition clear_rsc_bit :: "nat set \<Rightarrow> nat \<Rightarrow> nat set" where
  "clear_rsc_bit bits pos = bits - {pos}"

subsection \<open>XAieAllocRsc and XAieReleaseRsc\<close>

text \<open>The array the local pointer \<open>bits\<close> is set to.\<close>

datatype combo_bits = CoreBits | MemBits | ShimBits

fun get_bits :: "XAieDevHandle \<Rightarrow> combo_bits \<Rightarrow> nat set" where
  "get_bits Dev CoreBits = XAieComboCoreBits Dev"
| "get_bits Dev MemBits = XAieComboMemBits Dev"
| "get_bits Dev ShimBits = XAieComboShimBits Dev"

fun set_bits :: "XAieDevHandle \<Rightarrow> combo_bits \<Rightarrow> nat set \<Rightarrow> XAieDevHandle" where
  "set_bits Dev CoreBits b = Dev\<lparr>XAieComboCoreBits := b\<rparr>"
| "set_bits Dev MemBits b = Dev\<lparr>XAieComboMemBits := b\<rparr>"
| "set_bits Dev ShimBits b = Dev\<lparr>XAieComboShimBits := b\<rparr>"

text \<open>
  The test both functions start with, on the fields of their parameter \<open>R\<close>:
  \<open>(R.Loc.Row == 0 && R.Mod != XAIE_PL_MOD) || (R.Loc.Row != 0 && R.Mod == XAIE_PL_MOD)\<close>.
\<close>

definition tile_mod_mismatch :: "XAie_UserRsc \<Rightarrow> bool" where
  "tile_mod_mismatch R \<longleftrightarrow>
     (Row (Loc R) = 0 \<and> Mod R \<noteq> XAIE_PL_MOD) \<or> (Row (Loc R) \<noteq> 0 \<and> Mod R = XAIE_PL_MOD)"

text \<open>
  The block under \<open>if (RC == XAIE_OK)\<close> of \<open>XAieAllocRsc\<close>: four bits are checked from
  \<open>sbit\<close>. \<open>sbit\<close> is a C \<open>int\<close>; a negative one makes the helper index before the array,
  which is undefined behaviour: the result \<open>None\<close>.
\<close>

definition alloc_at ::
  "XAieDevHandle \<Rightarrow> combo_bits \<Rightarrow> int \<Rightarrow> XAie_LocType \<Rightarrow> XAie_ModuleType \<Rightarrow> XAie_UserRsc
     \<Rightarrow> (AieRC \<times> XAieDevHandle \<times> XAie_UserRsc) option" where
  "alloc_at Dev which sbit L M R =
     (if sbit < 0 then None
      else
        (let bits2check = 4;
             (bits', bit) = alloc_rsc_bit (get_bits Dev which) (nat sbit) bits2check
         in if bit < 0 then Some (XAIE_ERR, set_bits Dev which bits', R)
            else Some (XAIE_OK, set_bits Dev which bits',
                       R\<lparr>Loc := L, Mod := M, RscId := nat (bit - sbit)\<rparr>)))"

text \<open>
  \<open>XAieAllocRsc(Dev, L, M, R)\<close>: returns the status, the device handle and \<open>R\<close>, which
  the source takes by reference. The caller's \<open>R\<close> is read by the first test before
  anything is written to it.
\<close>

definition XAieAllocRsc ::
  "XAieDevHandle \<Rightarrow> XAie_LocType \<Rightarrow> XAie_ModuleType \<Rightarrow> XAie_UserRsc
     \<Rightarrow> (AieRC \<times> XAieDevHandle \<times> XAie_UserRsc) option" where
  "XAieAllocRsc Dev L M R =
     (if tile_mod_mismatch R then Some (XAIE_INVALID_ARGS, Dev, R)
      else
        (case M of
           XAIE_CORE_MOD \<Rightarrow> alloc_at Dev CoreBits ((int (Col L) * 8 + (int (Row L) - 1)) * 4) L M R
         | XAIE_MEM_MOD \<Rightarrow> alloc_at Dev MemBits ((int (Col L) * 8 + (int (Row L) - 1)) * 4) L M R
         | XAIE_PL_MOD \<Rightarrow> alloc_at Dev ShimBits (int (Col L) * 4) L M R
         | XAIE_MOD_OTHER x \<Rightarrow> Some (XAIE_INVALID_ARGS, Dev, R)))"

text \<open>
  \<open>XAieReleaseRsc(Dev, R)\<close>. Past the first test a module other than the interface has a
  row of at least 1, so \<open>pos\<close> is not negative.
\<close>

definition XAieReleaseRsc :: "XAieDevHandle \<Rightarrow> XAie_UserRsc \<Rightarrow> XAieDevHandle" where
  "XAieReleaseRsc Dev R =
     (if tile_mod_mismatch R then Dev
      else if Mod R = XAIE_PL_MOD then
        set_bits Dev ShimBits
          (clear_rsc_bit (get_bits Dev ShimBits) (nat (int (Col (Loc R)) * 4 + int (RscId R))))
      else if Mod R = XAIE_CORE_MOD then
        set_bits Dev CoreBits
          (clear_rsc_bit (get_bits Dev CoreBits)
             (nat ((int (Col (Loc R)) * 8 + (int (Row (Loc R)) - 1)) * 4 + int (RscId R))))
      else
        set_bits Dev MemBits
          (clear_rsc_bit (get_bits Dev MemBits)
             (nat ((int (Col (Loc R)) * 8 + (int (Row (Loc R)) - 1)) * 4 + int (RscId R)))))"

subsection \<open>The constructor, setEvents and getInputEvents\<close>

text \<open>
  The constructor: \<open>st0\<close> and \<open>rsc0\<close> are the state flags and the resource record as the
  base class constructor (outside the sources) leaves them. \<open>None\<close> is the
  \<open>std::invalid_argument\<close> thrown for an event count outside 2..4. \<open>resize\<close> fills the
  vector with zero events.
\<close>

definition XAieComboEvent_ctor ::
  "XAieRscState \<Rightarrow> XAie_UserRsc \<Rightarrow> XAie_LocType \<Rightarrow> XAie_ModuleType \<Rightarrow> nat \<Rightarrow> XAieComboEvent option" where
  "XAieComboEvent_ctor st0 rsc0 L M ENum =
     (if ENum > 4 \<or> ENum < 2 then None
      else Some \<lparr>this_Loc = L, this_Mod = M, this_State = st0\<lparr>Initialized := True\<rparr>,
                 this_Rsc = rsc0, vEvents = replicate ENum 0, vOps = [], vRscs = []\<rparr>)"

text \<open>
  The second test of \<open>setEvents\<close>, as written: its last disjunct reads the size of the
  member \<open>vOps\<close>, the other three the sizes of the arguments.
\<close>

definition setEvents_invalid :: "XAieComboEvent \<Rightarrow> XAie_Events list \<Rightarrow> XAie_EventComboOps list \<Rightarrow> bool" where
  "setEvents_invalid s vE vOp \<longleftrightarrow>
     length vE \<noteq> length (vEvents s) \<or> length vOp > 3 \<or>
     (length vE \<le> 2 \<and> length vOp > 1) \<or>
     (length vE > 2 \<and> length (vOps s) < 2)"

text \<open>
  The translation loop. \<open>conv\<close> stands for \<open>XAie_EventLogicalToPhysicalConv\<close> of the driver
  (its status; the hardware event it writes is not used). \<open>RC\<close> is \<open>None\<close> while the local
  variable is still uninitialised. The loop runs under \<open>length vE = length vEv\<close>, so the
  store \<open>vEvents[i] = vE[i]\<close> is in range.
\<close>

function setEvents_loop ::
  "(XAie_LocType \<Rightarrow> XAie_ModuleType \<Rightarrow> XAie_Events \<Rightarrow> AieRC) \<Rightarrow> XAie_LocType \<Rightarrow> XAie_ModuleType
     \<Rightarrow> XAie_Events list \<Rightarrow> nat \<Rightarrow> XAie_Events list \<Rightarrow> AieRC option
     \<Rightarrow> AieRC option \<times> XAie_Events list" where
  "setEvents_loop conv L M vE i vEv RC =
     (if i < length vE then
        (let RC' = conv L M (vE ! i)
         in if RC' \<noteq> XAIE_OK then (Some RC', vEv)
            else setEvents_loop conv L M vE (Suc i) (vEv[i := vE ! i]) (Some RC'))
      else (RC, vEv))"
  by pat_completeness auto
termination
  by (relation "measure (\<lambda>(conv, L, M, vE, i, vEv, RC). length vE - i)") auto

text \<open>
  \<open>setEvents(vE, vOp)\<close> returns the status and the object. \<open>None\<close>: the loop body never ran
  (no events at all) and \<open>RC\<close> is read uninitialised.
\<close>

definition setEvents ::
  "(XAie_LocType \<Rightarrow> XAie_ModuleType \<Rightarrow> XAie_Events \<Rightarrow> AieRC) \<Rightarrow> XAieComboEvent
     \<Rightarrow> XAie_Events list \<Rightarrow> XAie_EventComboOps list \<Rightarrow> (AieRC \<times> XAieComboEvent) option" where
  "setEvents conv s vE vOp =
     (if \<not> Initialized (this_State s) then Some (XAIE_ERR, s)
      else if setEvents_invalid s vE vOp then Some (XAIE_INVALID_ARGS, s)
      else
        (case setEvents_loop conv (this_Loc s) (this_Mod s) vE 0 (vEvents s) None of
           (None, vEv) \<Rightarrow> None
         | (Some RC, vEv) \<Rightarrow>
             if RC = XAIE_OK
             then Some (RC, s\<lparr>vEvents := vEv, vOps := vOp,
                              this_State := (this_State s)\<lparr>Configured := True\<rparr>\<rparr>)
             else Some (RC, s\<lparr>vEvents := vEv\<rparr>)))"

text \<open>
  \<open>getInputEvents(vE, vOp)\<close>: the two vectors are passed by reference and are written only
  when the object is configured.
\<close>

definition getInputEvents ::
  "XAieComboEvent \<Rightarrow> XAie_Events list \<Rightarrow> XAie_EventComboOps list
     \<Rightarrow> AieRC \<times> XAie_Events list \<times> XAie_EventComboOps list" where
  "getInputEvents s vE vOp =
     (if Configured (this_State s) then (XAIE_OK, vEvents s, vOps s)
      else (XAIE_ERR, vE, vOp))"

subsection \<open>\_reserve\<close>

text \<open>
  The inner loop \<open>for (j = 0; j < i; j++) XAieReleaseRsc(AieHd, vRscs[j])\<close>. Reading
  \<open>vRscs[j]\<close> past the end of the vector is undefined behaviour: \<open>None\<close>.
\<close>

function release_loop :: "XAieDevHandle \<Rightarrow> XAie_UserRsc list \<Rightarrow> nat \<Rightarrow> nat \<Rightarrow> XAieDevHandle option" where
  "release_loop Dev vR j i =
     (if j < i then
        (if j < length vR then release_loop (XAieReleaseRsc Dev (vR ! j)) vR (Suc j) i
         else None)
      else Some Dev)"
  by pat_completeness auto
termination
  by (relation "measure (\<lambda>(Dev, vR, j, i). i - j)") auto

text \<open>
  The outer loop, over \<open>i < vEvents.size()\<close> (the bound \<open>n\<close>). Each round declares a new
  local \<open>XAie_UserRsc R\<close> without initialising it; \<open>R0 i\<close> is what it holds in round \<open>i\<close>.
  After a failed allocation the loop releases and goes on to the next round: there is no
  \<open>break\<close>, and nothing is removed from \<open>vRscs\<close>.
\<close>

function reserve_loop ::
  "(nat \<Rightarrow> XAie_UserRsc) \<Rightarrow> XAie_LocType \<Rightarrow> XAie_ModuleType \<Rightarrow> nat \<Rightarrow> nat
     \<Rightarrow> XAieDevHandle \<Rightarrow> XAie_UserRsc list \<Rightarrow> (XAieDevHandle \<times> XAie_UserRsc list) option" where
  "reserve_loop R0 L M n i Dev vR =
     (if i < n then
        (case XAieAllocRsc Dev L M (R0 i) of
           None \<Rightarrow> None
         | Some (RC, Dev', R) \<Rightarrow>
             if RC \<noteq> XAIE_OK then
               (case release_loop Dev' vR 0 i of
                  None \<Rightarrow> None
                | Some Dev'' \<Rightarrow> reserve_loop R0 L M n (Suc i) Dev'' vR)
             else reserve_loop R0 L M n (Suc i) Dev' (vR @ [R]))
      else Some (Dev, vR))"
  by pat_completeness auto
termination
  by (relation "measure (\<lambda>(R0, L, M, n, i, Dev, vR). n - i)") auto

text \<open>
  \<open>_reserve()\<close> (the name cannot start with an underscore here) returns the status, the device handle and the object. After the loop it
  reads \<open>vRscs[0]\<close> (undefined behaviour on an empty vector: \<open>None\<close>) and returns
  \<open>XAIE_OK\<close>, the only \<open>return\<close> of the function.
\<close>

definition XAieComboEvent_reserve ::
  "(nat \<Rightarrow> XAie_UserRsc) \<Rightarrow> XAieDevHandle \<Rightarrow> XAieComboEvent
     \<Rightarrow> (AieRC \<times> XAieDevHandle \<times> XAieComboEvent) option" where
  "XAieComboEvent_reserve R0 AieHd s =
     (case reserve_loop R0 (this_Loc s) (this_Mod s) (length (vEvents s)) 0 AieHd (vRscs s) of
        None \<Rightarrow> None
      | Some (Dev, vR) \<Rightarrow>
          (case vR of
             [] \<Rightarrow> None
           | r # rs \<Rightarrow>
               Some (XAIE_OK, Dev,
                 s\<lparr>vRscs := vR,
                   this_Rsc := (this_Rsc s)\<lparr>Mod := Mod r,
                     RscId := (if length vR \<le> 2 then (if RscId r < 2 then 0 else 1) else 2)\<rparr>\<rparr>)))"

subsection \<open>\_release\<close>

text \<open>
  \<open>_release()\<close>: every listed slot is released in order, the list is cleared, the status is
  \<open>XAIE_OK\<close>.
\<close>

definition XAieComboEvent_release ::
  "XAieDevHandle \<Rightarrow> XAieComboEvent \<Rightarrow> AieRC \<times> XAieDevHandle \<times> XAieComboEvent" where
  "XAieComboEvent_release AieHd s = (XAIE_OK, foldl XAieReleaseRsc AieHd (vRscs s), s\<lparr>vRscs := []\<rparr>)"

subsection \<open>\_start\<close>

text \<open>
  The driver calls \<open>XAie_EventComboConfig\<close> and \<open>XAie_EventComboReset\<close> are outside the
  sources: they are the parameters \<open>cfg\<close> and \<open>rst\<close>, acting on a hardware state of any
  type. \<open>cfg\<close> returns its status; the status of \<open>rst\<close> is dropped by the source.
\<close>

type_synonym 'hw combo_config =
  "'hw \<Rightarrow> XAie_LocType \<Rightarrow> XAie_ModuleType \<Rightarrow> XAie_EventComboId \<Rightarrow> XAie_EventComboOps
     \<Rightarrow> XAie_Events \<Rightarrow> XAie_Events \<Rightarrow> AieRC \<times> 'hw"

type_synonym 'hw combo_reset =
  "'hw \<Rightarrow> XAie_LocType \<Rightarrow> XAie_ModuleType \<Rightarrow> XAie_EventComboId \<Rightarrow> 'hw"

text \<open>
  The rollback loop \<open>for (tId = StartCId; tId < ComboId; tId = tId + i)\<close>. With a step
  \<open>i\<close> that is not positive the loop would not advance: \<open>None\<close>.
\<close>

function reset_loop ::
  "'hw combo_reset \<Rightarrow> XAie_LocType \<Rightarrow> XAie_ModuleType \<Rightarrow> int \<Rightarrow> XAie_EventComboId
     \<Rightarrow> XAie_EventComboId \<Rightarrow> 'hw \<Rightarrow> 'hw option" where
  "reset_loop rst L M i tId ComboId hw =
     (if tId < ComboId then
        (if i \<le> 0 then None
         else reset_loop rst L M i (tId + i) ComboId (rst hw L M tId))
      else Some hw)"
  by pat_completeness auto
termination
  by (relation "measure (\<lambda>(rst, L, M, i, tId, ComboId, hw). nat (ComboId - tId))") auto

text \<open>
  The programming loop \<open>for (i = 0; i < vEvents.size(); i += 2)\<close>. \<open>StartCId\<close> and \<open>RC\<close> are
  \<open>None\<close> while uninitialised. The round reads \<open>vRscs[i]\<close>, \<open>vOps[i/2]\<close>, \<open>vEvents[i]\<close> and
  \<open>vEvents[i+1]\<close>; an index out of range is undefined behaviour: \<open>None\<close>. A failed call
  runs the rollback loop and leaves the loop with the failure status.
\<close>

function start_loop ::
  "'hw combo_config \<Rightarrow> 'hw combo_reset \<Rightarrow> XAieComboEvent \<Rightarrow> nat \<Rightarrow> XAie_EventComboId option
     \<Rightarrow> AieRC option \<Rightarrow> 'hw \<Rightarrow> (AieRC option \<times> 'hw) option" where
  "start_loop cfg rst s i StartCId RC hw =
     (if i < length (vEvents s) then
        (if i < length (vRscs s) \<and> i div 2 < length (vOps s) \<and> i + 1 < length (vEvents s) then
           (let ComboId = (if RscId (vRscs s ! i) = 0 then XAIE_EVENT_COMBO0 else XAIE_EVENT_COMBO1);
                StartCId' = (if i = 0 then Some ComboId else StartCId);
                (RC', hw') = cfg hw (this_Loc s) (this_Mod s) ComboId
                               (vOps s ! (i div 2)) (vEvents s ! i) (vEvents s ! (i + 1))
            in if RC' \<noteq> XAIE_OK then
                 (case StartCId' of
                    None \<Rightarrow> None
                  | Some c \<Rightarrow>
                      (case reset_loop rst (this_Loc s) (this_Mod s) (int i) c ComboId hw' of
                         None \<Rightarrow> None
                       | Some hw'' \<Rightarrow> Some (Some RC', hw'')))
               else start_loop cfg rst s (i + 2) StartCId' (Some RC') hw')
         else None)
      else Some (RC, hw))"
  by pat_completeness auto
termination
  by (relation "measure (\<lambda>(cfg, rst, s, i, StartCId, RC, hw). Suc (length (vEvents s)) - i)") auto

text \<open>
  \<open>_start()\<close> returns the status and the hardware state. After the loop, with three
  operations configured and no failure so far, the third combiner is programmed; its
  failure is logged and returned.
\<close>

definition XAieComboEvent_start ::
  "'hw combo_config \<Rightarrow> 'hw combo_reset \<Rightarrow> XAieComboEvent \<Rightarrow> 'hw \<Rightarrow> (AieRC \<times> 'hw) option" where
  "XAieComboEvent_start cfg rst s hw =
     (case start_loop cfg rst s 0 None None hw of
        None \<Rightarrow> None
      | Some (None, hw') \<Rightarrow> None
      | Some (Some RC, hw') \<Rightarrow>
          if RC = XAIE_OK \<and> length (vOps s) = 3 then
            (case vEvents s of
               [] \<Rightarrow> None
             | e0 # es \<Rightarrow>
                 Some (cfg hw' (this_Loc s) (this_Mod s) XAIE_EVENT_COMBO2 (vOps s ! 2) e0 e0))
          else Some (RC, hw'))"

declare setEvents_loop.simps [simp del]
declare release_loop.simps [simp del]
declare reserve_loop.simps [simp del]
declare reset_loop.simps [simp del]
declare start_loop.simps [simp del]

subsection \<open>The objects the program builds\<close>

text \<open>
  An object starts in the constructor and is changed by \<open>setEvents\<close>, \<open>_reserve\<close> and
  \<open>_release\<close>; the other member functions of the class (\<open>getEvents\<close>, \<open>getInputEvents\<close>,
  \<open>_start\<close>, \<open>_stop\<close>) write no member. The base class, outside the sources, keeps the
  state flags and \<open>Rsc\<close>: the last rule lets them, and the slot list with them, take any
  value. \<open>vEvents\<close> and \<open>vOps\<close> are written by the constructor and by \<open>setEvents\<close> only.
\<close>

inductive reachable :: "XAieComboEvent \<Rightarrow> bool" where
  built: "XAieComboEvent_ctor st0 rsc0 L M ENum = Some s \<Longrightarrow> reachable s"
| configured: "reachable s \<Longrightarrow> setEvents conv s vE vOp = Some (RC, s') \<Longrightarrow> reachable s'"
| reserved: "reachable s \<Longrightarrow> XAieComboEvent_reserve R0 AieHd s = Some (RC, AieHd', s') \<Longrightarrow> reachable s'"
| released: "reachable s \<Longrightarrow> XAieComboEvent_release AieHd s = (RC, AieHd', s') \<Longrightarrow> reachable s'"
| base_members: "reachable s \<Longrightarrow> reachable (s\<lparr>this_State := st, this_Rsc := r, vRscs := vR\<rparr>)"

subsection \<open>Concrete objects for the examples\<close>

text \<open>
  A translation that accepts the events numbered below \<open>n\<close> and rejects the others, a tile
  of row 1, the object the constructor builds there when the base class leaves the flags
  cleared, and a hardware that records the calls it receives, failing the configuration of
  one combiner.
\<close>

definition conv_below :: "nat \<Rightarrow> XAie_LocType \<Rightarrow> XAie_ModuleType \<Rightarrow> XAie_Events \<Rightarrow> AieRC" where
  "conv_below n L M e = (if e < n then XAIE_OK else XAIE_INVALID_ARGS)"

definition tile_0_1 :: XAie_LocType where
  "tile_0_1 = \<lparr>Row = 1, Col = 0\<rparr>"

definition flags_cleared :: XAieRscState where
  "flags_cleared = \<lparr>Initialized = False, Configured = False, Reserved = False\<rparr>"

definition created :: "XAie_ModuleType \<Rightarrow> nat \<Rightarrow> XAieComboEvent" where
  "created M ENum =
     \<lparr>this_Loc = tile_0_1, this_Mod = M,
      this_State = \<lparr>Initialized = True, Configured = False, Reserved = False\<rparr>,
      this_Rsc = \<lparr>Loc = tile_0_1, Mod = M, RscId = 0\<rparr>,
      vEvents = replicate ENum 0, vOps = [], vRscs = []\<rparr>"

definition slot :: "XAie_LocType \<Rightarrow> XAie_ModuleType \<Rightarrow> nat \<Rightarrow> XAie_UserRsc" where
  "slot L M n = \<lparr>Loc = L, Mod = M, RscId = n\<rparr>"

definition no_bits :: XAieDevHandle where
  "no_bits = \<lparr>XAieComboCoreBits = {}, XAieComboMemBits = {}, XAieComboShimBits = {}\<rparr>"

datatype hw_call =
  ComboConfig XAie_EventComboId XAie_EventComboOps XAie_Events XAie_Events
  | ComboReset XAie_EventComboId

definition cfg_failing_at :: "XAie_EventComboId \<Rightarrow> hw_call list combo_config" where
  "cfg_failing_at bad hw L M ComboId Op E1 E2 =
     (if ComboId = bad then XAIE_ERR else XAIE_OK, hw @ [ComboConfig ComboId Op E1 E2])"

definition rst_recorded :: "hw_call list combo_reset" where
  "rst_recorded hw L M ComboId = hw @ [ComboReset ComboId]"

definition configured_pair :: XAieComboEvent where
  "configured_pair =
     (created XAIE_CORE_MOD 2)\<lparr>vEvents := [1, 2], vOps := [0],
        this_State := \<lparr>Initialized = True, Configured = True, Reserved = False\<rparr>\<rparr>"

definition reserved_quad :: XAieComboEvent where
  "reserved_quad =
     (created XAIE_CORE_MOD 4)\<lparr>vEvents := [10, 11, 12, 13], vOps := [0, 1, 2],
        vRscs := [slot tile_0_1 XAIE_CORE_MOD 0, slot tile_0_1 XAIE_CORE_MOD 1,
                  slot tile_0_1 XAIE_CORE_MOD 2, slot tile_0_1 XAIE_CORE_MOD 3],
        this_State := \<lparr>Initialized = True, Configured = True, Reserved = True\<rparr>\<rparr>"

text \<open>The uninitialised local \<open>R\<close> of \<open>_reserve\<close> holding the same bytes \<open>r\<close> in every round.\<close>

definition R_holding :: "XAie_UserRsc \<Rightarrow> nat \<Rightarrow> XAie_UserRsc" where
  "R_holding r i = r"



section \<open>Properties of the simulation backend\<close>

lemma MaskPoll_loop_stop:
  "\<not> T > 0 \<Longrightarrow> MaskPoll_loop ess IOInst RegOff Mask Val T k sl =
     \<lparr>Ret = XAIELIB_FAILURE, Reads = k, Sleeps = sl\<rparr>"
  by (subst MaskPoll_loop.simps) simp

lemma MaskPoll_loop_hit:
  "T > 0 \<Longrightarrow> (XAie_SimIO_Read32 ess k IOInst RegOff AND Mask) = Val \<Longrightarrow>
   MaskPoll_loop ess IOInst RegOff Mask Val T k sl =
     \<lparr>Ret = XAIELIB_SUCCESS, Reads = Suc k, Sleeps = sl\<rparr>"
  by (subst MaskPoll_loop.simps) simp

lemma MaskPoll_loop_miss:
  "T > 0 \<Longrightarrow> (XAie_SimIO_Read32 ess k IOInst RegOff AND Mask) \<noteq> Val \<Longrightarrow>
   MaskPoll_loop ess IOInst RegOff Mask Val T k sl =
     MaskPoll_loop ess IOInst RegOff Mask Val (T - 1) (Suc k) (Suc sl)"
  by (subst MaskPoll_loop.simps) simp

lemma unat_pred_u32: "(T :: u32) > 0 \<Longrightarrow> unat T = Suc (unat (T - 1))"
  by (simp add: word_neq_0_conv [symmetric] unat_minus_one unat_gt_0)

lemma unat_nonpos_u32: "\<not> (T :: u32) > 0 \<Longrightarrow> unat T = 0"
  by (simp add: word_neq_0_conv [symmetric])

text \<open>The loop succeeds exactly when one of the next \<open>unat T\<close> reads shows the value.\<close>

lemma MaskPoll_loop_Ret:
  "Ret (MaskPoll_loop ess IOInst RegOff Mask Val T k sl) = XAIELIB_SUCCESS \<longleftrightarrow>
     (\<exists>j<unat T. (XAie_SimIO_Read32 ess (k + j) IOInst RegOff AND Mask) = Val)"
proof (induction ess IOInst RegOff Mask Val T k sl rule: MaskPoll_loop.induct)
  case (1 ess IOInst RegOff Mask Val T k sl)
  show ?case
  proof (cases "T > 0")
    case False
    then show ?thesis
      by (simp add: MaskPoll_loop_stop unat_nonpos_u32)
  next
    case pos: True
    note un = unat_pred_u32 [OF pos]
    show ?thesis
    proof (cases "(XAie_SimIO_Read32 ess k IOInst RegOff AND Mask) = Val")
      case True
      from True un have "\<exists>j<unat T. (XAie_SimIO_Read32 ess (k + j) IOInst RegOff AND Mask) = Val"
        by (intro exI [of _ 0]) simp
      with pos True show ?thesis
        by (simp add: MaskPoll_loop_hit)
    next
      case False
      have "(\<exists>j<unat T. (XAie_SimIO_Read32 ess (k + j) IOInst RegOff AND Mask) = Val) \<longleftrightarrow>
            (\<exists>j<unat (T - 1). (XAie_SimIO_Read32 ess (Suc k + j) IOInst RegOff AND Mask) = Val)"
      proof
        assume "\<exists>j<unat T. (XAie_SimIO_Read32 ess (k + j) IOInst RegOff AND Mask) = Val"
        then obtain j where j: "j < unat T" "(XAie_SimIO_Read32 ess (k + j) IOInst RegOff AND Mask) = Val"
          by blast
        with False obtain j' where "j = Suc j'" by (cases j) auto
        with j un show "\<exists>j<unat (T - 1). (XAie_SimIO_Read32 ess (Suc k + j) IOInst RegOff AND Mask) = Val"
          by (intro exI [of _ j']) simp
      next
        assume "\<exists>j<unat (T - 1). (XAie_SimIO_Read32 ess (Suc k + j) IOInst RegOff AND Mask) = Val"
        then obtain j where "j < unat (T - 1)" "(XAie_SimIO_Read32 ess (Suc k + j) IOInst RegOff AND Mask) = Val"
          by blast
        with un show "\<exists>j<unat T. (XAie_SimIO_Read32 ess (k + j) IOInst RegOff AND Mask) = Val"
          by (intro exI [of _ "Suc j"]) simp
      qed
      with "1.IH" [OF pos False] MaskPoll_loop_miss [OF pos False] show ?thesis by simp
    qed
  qed
qed

lemma MaskPoll_loop_Reads_le:
  "Reads (MaskPoll_loop ess IOInst RegOff Mask Val T k sl) \<le> k + unat T"
proof (induction ess IOInst RegOff Mask Val T k sl rule: MaskPoll_loop.induct)
  case (1 ess IOInst RegOff Mask Val T k sl)
  show ?case
  proof (cases "T > 0")
    case False
    then show ?thesis by (simp add: MaskPoll_loop_stop)
  next
    case pos: True
    note un = unat_pred_u32 [OF pos]
    show ?thesis
    proof (cases "(XAie_SimIO_Read32 ess k IOInst RegOff AND Mask) = Val")
      case True
      with pos un show ?thesis by (simp add: MaskPoll_loop_hit)
    next
      case False
      with "1.IH" [OF pos False] MaskPoll_loop_miss [OF pos False] un show ?thesis by simp
    qed
  qed
qed

lemma MaskPoll_loop_Reads_ge:
  "k \<le> Reads (MaskPoll_loop ess IOInst RegOff Mask Val T k sl) \<and>
   (T > 0 \<longrightarrow> Suc k \<le> Reads (MaskPoll_loop ess IOInst RegOff Mask Val T k sl))"
proof (induction ess IOInst RegOff Mask Val T k sl rule: MaskPoll_loop.induct)
  case (1 ess IOInst RegOff Mask Val T k sl)
  show ?case
  proof (cases "T > 0")
    case False
    then show ?thesis by (simp add: MaskPoll_loop_stop)
  next
    case pos: True
    show ?thesis
    proof (cases "(XAie_SimIO_Read32 ess k IOInst RegOff AND Mask) = Val")
      case True
      with pos show ?thesis by (simp add: MaskPoll_loop_hit)
    next
      case False
      with "1.IH" [OF pos False] MaskPoll_loop_miss [OF pos False] show ?thesis by simp
    qed
  qed
qed

text \<open>Every read but a successful last one is followed by one sleep.\<close>

lemma MaskPoll_loop_Sleeps:
  "Reads (MaskPoll_loop ess IOInst RegOff Mask Val T k sl) + sl =
   Sleeps (MaskPoll_loop ess IOInst RegOff Mask Val T k sl) + k +
     (if Ret (MaskPoll_loop ess IOInst RegOff Mask Val T k sl) = XAIELIB_SUCCESS then 1 else 0)"
proof (induction ess IOInst RegOff Mask Val T k sl rule: MaskPoll_loop.induct)
  case (1 ess IOInst RegOff Mask Val T k sl)
  show ?case
  proof (cases "T > 0")
    case False
    then show ?thesis by (simp add: MaskPoll_loop_stop)
  next
    case pos: True
    show ?thesis
    proof (cases "(XAie_SimIO_Read32 ess k IOInst RegOff AND Mask) = Val")
      case True
      with pos show ?thesis by (simp add: MaskPoll_loop_hit)
    next
      case False
      with "1.IH" [OF pos False] MaskPoll_loop_miss [OF pos False] show ?thesis by simp
    qed
  qed
qed

lemma forced_timeout: "unat (if T = 0 then T + 1 else T :: u32) = max (unat T) 1"
proof (cases "T = 0")
  case True
  then show ?thesis by simp
next
  case False
  then have "0 < unat T" by (simp add: unat_gt_0)
  with False show ?thesis by (simp add: max_def)
qed

lemma forced_timeout_pos: "(if T = 0 then T + 1 else T :: u32) > 0"
  by (auto simp: word_neq_0_conv)

text \<open>
  Claim C8. A poll of the simulation backend returns success exactly when one of the
  reads within the timeout (the first \<open>max TimeOutUs 1\<close> reads, one per microsecond
  sleep) satisfies \<open>(read AND Mask) = Val\<close>, and failure exactly when none does; a
  timeout of zero makes exactly one read; and the reads are one per sleep, the successful
  read apart, which is not followed by a sleep.
\<close>

theorem XAie_SimIO_MaskPoll_success_iff:
  "(Ret (XAie_SimIO_MaskPoll ess IOInst RegOff Mask Val TimeOutUs) = XAIELIB_SUCCESS \<longleftrightarrow>
     (\<exists>k<max (unat TimeOutUs) 1. (XAie_SimIO_Read32 ess k IOInst RegOff AND Mask) = Val))
  \<and> (Ret (XAie_SimIO_MaskPoll ess IOInst RegOff Mask Val TimeOutUs) = XAIELIB_FAILURE \<longleftrightarrow>
     \<not> (\<exists>k<max (unat TimeOutUs) 1. (XAie_SimIO_Read32 ess k IOInst RegOff AND Mask) = Val))
  \<and> Reads (XAie_SimIO_MaskPoll ess IOInst RegOff Mask Val 0) = 1
  \<and> Reads (XAie_SimIO_MaskPoll ess IOInst RegOff Mask Val TimeOutUs) =
      Sleeps (XAie_SimIO_MaskPoll ess IOInst RegOff Mask Val TimeOutUs) +
      (if Ret (XAie_SimIO_MaskPoll ess IOInst RegOff Mask Val TimeOutUs) = XAIELIB_SUCCESS then 1 else 0)"
proof -
  let ?T = "if TimeOutUs = 0 then TimeOutUs + 1 else TimeOutUs"
  have a: "Ret (XAie_SimIO_MaskPoll ess IOInst RegOff Mask Val TimeOutUs) = XAIELIB_SUCCESS \<longleftrightarrow>
     (\<exists>k<max (unat TimeOutUs) 1. (XAie_SimIO_Read32 ess k IOInst RegOff AND Mask) = Val)"
    unfolding XAie_SimIO_MaskPoll_def
    using MaskPoll_loop_Ret [of ess IOInst RegOff Mask Val ?T 0 0] forced_timeout [of TimeOutUs]
    by simp
  have b: "Ret (XAie_SimIO_MaskPoll ess IOInst RegOff Mask Val TimeOutUs) = XAIELIB_FAILURE \<longleftrightarrow>
     Ret (XAie_SimIO_MaskPoll ess IOInst RegOff Mask Val TimeOutUs) \<noteq> XAIELIB_SUCCESS"
    by (cases "Ret (XAie_SimIO_MaskPoll ess IOInst RegOff Mask Val TimeOutUs)") simp_all
  have c: "Reads (XAie_SimIO_MaskPoll ess IOInst RegOff Mask Val 0) = 1"
    using MaskPoll_loop_Reads_le [of ess IOInst RegOff Mask Val 1 0 0]
      MaskPoll_loop_Reads_ge [of 0 ess IOInst RegOff Mask Val 1 0]
    unfolding XAie_SimIO_MaskPoll_def by simp
  have d: "Reads (XAie_SimIO_MaskPoll ess IOInst RegOff Mask Val TimeOutUs) =
      Sleeps (XAie_SimIO_MaskPoll ess IOInst RegOff Mask Val TimeOutUs) +
      (if Ret (XAie_SimIO_MaskPoll ess IOInst RegOff Mask Val TimeOutUs) = XAIELIB_SUCCESS then 1 else 0)"
    unfolding XAie_SimIO_MaskPoll_def
    using MaskPoll_loop_Sleeps [of ess IOInst RegOff Mask Val ?T 0 0] by simp
  from a b c d show ?thesis by blast
qed

text \<open>
  Claim C9. For every timeout the poll returns (the loop is a total function: its counter
  is at least 1 on entry and one less in every round that does not see the value) after at
  least one and at most \<open>max TimeOutUs 1\<close> register reads.
\<close>

theorem XAie_SimIO_MaskPoll_reads_bounded:
  "1 \<le> Reads (XAie_SimIO_MaskPoll ess IOInst RegOff Mask Val TimeOutUs) \<and>
   Reads (XAie_SimIO_MaskPoll ess IOInst RegOff Mask Val TimeOutUs) \<le> max (unat TimeOutUs) 1"
proof -
  let ?T = "if TimeOutUs = 0 then TimeOutUs + 1 else TimeOutUs"
  from MaskPoll_loop_Reads_ge [of 0 ess IOInst RegOff Mask Val ?T 0] forced_timeout_pos [of TimeOutUs]
       MaskPoll_loop_Reads_le [of ess IOInst RegOff Mask Val ?T 0 0] forced_timeout [of TimeOutUs]
  show ?thesis unfolding XAie_SimIO_MaskPoll_def by simp
qed

section \<open>Properties of setEvents and getInputEvents\<close>

lemma setEvents_loop_exit:
  "\<not> i < length vE \<Longrightarrow> setEvents_loop conv L M vE i vEv RC = (RC, vEv)"
  by (subst setEvents_loop.simps) simp

lemma setEvents_loop_reject:
  "i < length vE \<Longrightarrow> conv L M (vE ! i) \<noteq> XAIE_OK \<Longrightarrow>
   setEvents_loop conv L M vE i vEv RC = (Some (conv L M (vE ! i)), vEv)"
  by (subst setEvents_loop.simps) (simp add: Let_def)

lemma setEvents_loop_accept:
  "i < length vE \<Longrightarrow> conv L M (vE ! i) = XAIE_OK \<Longrightarrow>
   setEvents_loop conv L M vE i vEv RC =
     setEvents_loop conv L M vE (Suc i) (vEv[i := vE ! i]) (Some XAIE_OK)"
  by (subst setEvents_loop.simps) (simp add: Let_def)

text \<open>Storing the next event: the committed prefix grows by one.\<close>

lemma commit_next:
  assumes "i < length vE" and "length V = length vE"
  shows "(take i vE @ drop i V)[i := vE ! i] = take (Suc i) vE @ drop (Suc i) V"
proof -
  from assms have "drop i V = V ! i # drop (Suc i) V"
    by (simp add: Cons_nth_drop_Suc)
  moreover from assms have "take (Suc i) vE = take i vE @ [vE ! i]"
    by (simp add: take_Suc_conv_app_nth)
  moreover from assms have "length (take i vE) = i"
    by simp
  ultimately show ?thesis
    by (simp add: list_update_append)
qed

lemma setEvents_loop_first_failure:
  assumes "i \<le> k" and "k < length vE" and "length V = length vE"
    and "\<forall>j. i \<le> j \<and> j < k \<longrightarrow> conv L M (vE ! j) = XAIE_OK"
    and "conv L M (vE ! k) \<noteq> XAIE_OK"
  shows "setEvents_loop conv L M vE i (take i vE @ drop i V) RC =
           (Some (conv L M (vE ! k)), take k vE @ drop k V)"
  using assms
proof (induction "k - i" arbitrary: i RC)
  case 0
  then have "i = k" by simp
  with "0.prems" show ?case
    by (simp add: setEvents_loop_reject)
next
  case (Suc d)
  then have lt: "i < k" and il: "i < length vE" by simp_all
  with Suc.prems have ok: "conv L M (vE ! i) = XAIE_OK" by simp
  have step: "setEvents_loop conv L M vE i (take i vE @ drop i V) RC =
      setEvents_loop conv L M vE (Suc i) (take (Suc i) vE @ drop (Suc i) V) (Some XAIE_OK)"
    using setEvents_loop_accept [where conv = conv and L = L and M = M and vE = vE and i = i]
      il ok commit_next [OF il Suc.prems(3)] by simp
  have "setEvents_loop conv L M vE (Suc i) (take (Suc i) vE @ drop (Suc i) V) (Some XAIE_OK) =
      (Some (conv L M (vE ! k)), take k vE @ drop k V)"
  proof (rule Suc.hyps(1))
    from Suc.hyps(2) show "d = k - Suc i" by simp
    from lt show "Suc i \<le> k" by simp
    from Suc.prems show "k < length vE" by simp
    from Suc.prems show "length V = length vE" by simp
    from Suc.prems show "\<forall>j. Suc i \<le> j \<and> j < k \<longrightarrow> conv L M (vE ! j) = XAIE_OK" by simp
    from Suc.prems show "conv L M (vE ! k) \<noteq> XAIE_OK" by simp
  qed
  with step show ?case by simp
qed

lemma setEvents_loop_all_accepted:
  assumes "i \<le> length vE" and "length V = length vE"
    and "\<forall>j. i \<le> j \<and> j < length vE \<longrightarrow> conv L M (vE ! j) = XAIE_OK"
  shows "setEvents_loop conv L M vE i (take i vE @ drop i V) RC =
           (if i < length vE then Some XAIE_OK else RC, vE)"
  using assms
proof (induction "length vE - i" arbitrary: i RC)
  case 0
  then have "i = length vE" by simp
  with "0.prems" show ?case
    by (simp add: setEvents_loop_exit)
next
  case (Suc d)
  then have il: "i < length vE" by simp
  with Suc.prems have ok: "conv L M (vE ! i) = XAIE_OK" by simp
  have step: "setEvents_loop conv L M vE i (take i vE @ drop i V) RC =
      setEvents_loop conv L M vE (Suc i) (take (Suc i) vE @ drop (Suc i) V) (Some XAIE_OK)"
    using setEvents_loop_accept [where conv = conv and L = L and M = M and vE = vE and i = i]
      il ok commit_next [OF il Suc.prems(2)] by simp
  have "setEvents_loop conv L M vE (Suc i) (take (Suc i) vE @ drop (Suc i) V) (Some XAIE_OK) =
      (if Suc i < length vE then Some XAIE_OK else Some XAIE_OK, vE)"
  proof (rule Suc.hyps(1))
    from Suc.hyps(2) show "d = length vE - Suc i" by simp
    from il show "Suc i \<le> length vE" by simp
    from Suc.prems show "length V = length vE" by simp
    from Suc.prems show "\<forall>j. Suc i \<le> j \<and> j < length vE \<longrightarrow> conv L M (vE ! j) = XAIE_OK" by simp
  qed
  with step il show ?case by simp
qed

text \<open>Some index fails: there is a first one.\<close>

lemma first_rejected:
  assumes "\<exists>j<length vE. conv L M (vE ! j) \<noteq> XAIE_OK"
  shows "\<exists>k<length vE. conv L M (vE ! k) \<noteq> XAIE_OK \<and> (\<forall>j<k. conv L M (vE ! j) = XAIE_OK)"
proof -
  let ?P = "\<lambda>j. j < length vE \<and> conv L M (vE ! j) \<noteq> XAIE_OK"
  from assms have ex: "\<exists>j. ?P j" by blast
  define k where "k = (LEAST j. ?P j)"
  from ex have Pk: "?P k" unfolding k_def by (rule LeastI_ex)
  have "\<forall>j<k. conv L M (vE ! j) = XAIE_OK"
  proof (intro allI impI)
    fix j assume "j < k"
    then have "\<not> ?P j" unfolding k_def by (rule not_less_Least)
    moreover from \<open>j < k\<close> Pk have "j < length vE" by simp
    ultimately show "conv L M (vE ! j) = XAIE_OK" by simp
  qed
  with Pk show ?thesis by blast
qed

text \<open>
  The call whose first rejected event has index \<open>k\<close>: the status is the translation's,
  and the object differs from the one before only in the stored events below \<open>k\<close>.
\<close>

lemma setEvents_first_failure:
  assumes init: "Initialized (this_State s)"
    and valid: "\<not> setEvents_invalid s vE vOp"
    and k: "k < length vE"
    and before: "\<forall>j<k. conv (this_Loc s) (this_Mod s) (vE ! j) = XAIE_OK"
    and fail: "conv (this_Loc s) (this_Mod s) (vE ! k) \<noteq> XAIE_OK"
  shows "setEvents conv s vE vOp =
           Some (conv (this_Loc s) (this_Mod s) (vE ! k),
                 s\<lparr>vEvents := take k vE @ drop k (vEvents s)\<rparr>)"
proof -
  from valid have len: "length (vEvents s) = length vE"
    by (simp add: setEvents_invalid_def)
  from before have b: "\<forall>j. 0 \<le> j \<and> j < k \<longrightarrow> conv (this_Loc s) (this_Mod s) (vE ! j) = XAIE_OK"
    by simp
  from setEvents_loop_first_failure [where conv = conv and L = "this_Loc s" and M = "this_Mod s"
      and vE = vE and V = "vEvents s" and i = 0 and k = k and RC = None] k len b fail
  have loop: "setEvents_loop conv (this_Loc s) (this_Mod s) vE 0 (vEvents s) None =
      (Some (conv (this_Loc s) (this_Mod s) (vE ! k)), take k vE @ drop k (vEvents s))"
    by simp
  from init valid loop fail show ?thesis
    by (simp add: setEvents_def)
qed

text \<open>A call that returns \<open>XAIE_OK\<close> has stored the two arguments and set the flag.\<close>

lemma setEvents_ok_object:
  assumes "setEvents conv s vE vOp = Some (XAIE_OK, s')"
  shows "s' = s\<lparr>vEvents := vE, vOps := vOp, this_State := (this_State s)\<lparr>Configured := True\<rparr>\<rparr>"
proof -
  let ?L = "this_Loc s" and ?M = "this_Mod s"
  from assms have init: "Initialized (this_State s)"
    by (auto simp: setEvents_def split: if_splits)
  from assms init have valid: "\<not> setEvents_invalid s vE vOp"
    by (auto simp: setEvents_def split: if_splits)
  then have len: "length (vEvents s) = length vE"
    by (simp add: setEvents_invalid_def)
  have all_ok: "\<forall>j<length vE. conv ?L ?M (vE ! j) = XAIE_OK"
  proof (rule ccontr)
    assume "\<not> (\<forall>j<length vE. conv ?L ?M (vE ! j) = XAIE_OK)"
    then have "\<exists>j<length vE. conv ?L ?M (vE ! j) \<noteq> XAIE_OK" by blast
    with first_rejected [where conv = conv and L = ?L and M = ?M and vE = vE] obtain k where
      k: "k < length vE"
      and fail: "conv ?L ?M (vE ! k) \<noteq> XAIE_OK"
      and before: "\<forall>j<k. conv ?L ?M (vE ! j) = XAIE_OK"
      by blast
    from setEvents_first_failure [where conv = conv and s = s and vE = vE and vOp = vOp and k = k]
      init valid k before fail assms show False by simp
  qed
  then have a: "\<forall>j. 0 \<le> j \<and> j < length vE \<longrightarrow> conv ?L ?M (vE ! j) = XAIE_OK"
    by simp
  from setEvents_loop_all_accepted [where conv = conv and L = ?L and M = ?M
      and vE = vE and V = "vEvents s" and i = 0 and RC = None] len a
  have loop: "setEvents_loop conv ?L ?M vE 0 (vEvents s) None =
      (if 0 < length vE then Some XAIE_OK else None, vE)"
    by simp
  from assms init valid loop show ?thesis
    by (auto simp: setEvents_def split: if_splits)
qed

lemma setEvents_loop_length:
  "length (snd (setEvents_loop conv L M vE i vEv RC)) = length vEv"
proof (induction conv L M vE i vEv RC rule: setEvents_loop.induct)
  case (1 conv L M vE i vEv RC)
  show ?case
  proof (cases "i < length vE")
    case False
    then show ?thesis by (simp add: setEvents_loop_exit)
  next
    case il: True
    show ?thesis
    proof (cases "conv L M (vE ! i) = XAIE_OK")
      case False
      with il show ?thesis by (simp add: setEvents_loop_reject)
    next
      case True
      from "1.IH" [OF il refl] True
      have "length (snd (setEvents_loop conv L M vE (Suc i) (vEv[i := vE ! i]) (Some XAIE_OK))) =
            length (vEv[i := vE ! i])"
        by simp
      with il True show ?thesis
        using setEvents_loop_accept [where conv = conv and L = L and M = M and vE = vE and i = i
            and vEv = vEv and RC = RC]
        by simp
    qed
  qed
qed

lemma setEvents_shape:
  assumes "setEvents conv s vE vOp = Some (RC, s')"
  shows "length (vEvents s') = length (vEvents s) \<and>
         (vOps s' = vOps s \<or> (vOps s' = vOp \<and> \<not> setEvents_invalid s vE vOp))"
proof (cases "\<not> Initialized (this_State s) \<or> setEvents_invalid s vE vOp")
  case True
  with assms have "s' = s"
    by (auto simp: setEvents_def split: if_splits)
  then show ?thesis by simp
next
  case False
  obtain r vEv where loop: "setEvents_loop conv (this_Loc s) (this_Mod s) vE 0 (vEvents s) None = (r, vEv)"
    by (cases "setEvents_loop conv (this_Loc s) (this_Mod s) vE 0 (vEvents s) None")
  from setEvents_loop_length [of conv "this_Loc s" "this_Mod s" vE 0 "vEvents s" None] loop
  have len: "length vEv = length (vEvents s)"
    by simp
  from assms False loop have "s' = s\<lparr>vEvents := vEv\<rparr> \<or>
      s' = s\<lparr>vEvents := vEv, vOps := vOp, this_State := (this_State s)\<lparr>Configured := True\<rparr>\<rparr>"
    by (auto simp: setEvents_def split: if_splits option.splits)
  with len False show ?thesis by auto
qed

text \<open>
  Claim C7. After a \<open>setEvents\<close> call with events \<open>vE\<close> and operations \<open>vOp\<close> that returned
  \<open>XAIE_OK\<close>, \<open>getInputEvents\<close> returns \<open>XAIE_OK\<close> and writes exactly \<open>vE\<close> and \<open>vOp\<close>, in
  their order, whatever its two output vectors held.
\<close>

theorem setEvents_getInputEvents_roundtrip:
  assumes "setEvents conv s vE vOp = Some (XAIE_OK, s')"
  shows "getInputEvents s' outE outOp = (XAIE_OK, vE, vOp)"
proof -
  from setEvents_ok_object [OF assms] show ?thesis
    by (simp add: getInputEvents_def)
qed

theorem setEvents_getInputEvents_roundtrip_witness:
  "setEvents (conv_below 100) (created XAIE_CORE_MOD 2) [3, 4] [2] =
     Some (XAIE_OK, (created XAIE_CORE_MOD 2)\<lparr>vEvents := [3, 4], vOps := [2],
        this_State := \<lparr>Initialized = True, Configured = True, Reserved = False\<rparr>\<rparr>) \<and>
   getInputEvents ((created XAIE_CORE_MOD 2)\<lparr>vEvents := [3, 4], vOps := [2],
        this_State := \<lparr>Initialized = True, Configured = True, Reserved = False\<rparr>\<rparr>) [7] [7, 7] =
     (XAIE_OK, [3, 4], [2])"
proof -
  have call: "setEvents (conv_below 100) (created XAIE_CORE_MOD 2) [3, 4] [2] =
     Some (XAIE_OK, (created XAIE_CORE_MOD 2)\<lparr>vEvents := [3, 4], vOps := [2],
        this_State := \<lparr>Initialized = True, Configured = True, Reserved = False\<rparr>\<rparr>)"
    by code_simp
  from setEvents_getInputEvents_roundtrip [OF call, of "[7]" "[7, 7]"] call show ?thesis
    by simp
qed

text \<open>
  Claim C3, as the code has it. In a \<open>setEvents\<close> call on an initialised object whose counts
  pass the test and whose first rejected event has index \<open>k\<close>, the call returns the
  translation's status (not \<open>XAIE_OK\<close>); the stored operations and the state flags are
  unchanged, and so are the stored events from index \<open>k\<close> on, while the stored events below
  \<open>k\<close> have been overwritten by the new ones. An object that was not configured before is
  still not configured, and \<open>getInputEvents\<close> then returns \<open>XAIE_ERR\<close> and leaves its outputs
  alone, as if \<open>setEvents\<close> had not been called; an object that was configured reports the
  mixed events.
\<close>

theorem setEvents_translation_failure:
  assumes init: "Initialized (this_State s)"
    and valid: "\<not> setEvents_invalid s vE vOp"
    and k: "k < length vE"
    and before: "\<forall>j<k. conv (this_Loc s) (this_Mod s) (vE ! j) = XAIE_OK"
    and fail: "conv (this_Loc s) (this_Mod s) (vE ! k) \<noteq> XAIE_OK"
  shows "setEvents conv s vE vOp =
           Some (conv (this_Loc s) (this_Mod s) (vE ! k),
                 s\<lparr>vEvents := take k vE @ drop k (vEvents s)\<rparr>) \<and>
         getInputEvents (s\<lparr>vEvents := take k vE @ drop k (vEvents s)\<rparr>) outE outOp =
           (if Configured (this_State s)
            then (XAIE_OK, take k vE @ drop k (vEvents s), vOps s)
            else (XAIE_ERR, outE, outOp))"
proof -
  note setEvents_first_failure [where conv = conv and s = s and vE = vE and vOp = vOp and k = k]
  with init valid k before fail have "setEvents conv s vE vOp =
      Some (conv (this_Loc s) (this_Mod s) (vE ! k), s\<lparr>vEvents := take k vE @ drop k (vEvents s)\<rparr>)"
    by blast
  then show ?thesis
    by (simp add: getInputEvents_def)
qed

theorem setEvents_translation_failure_witness:
  "Initialized (this_State configured_pair) \<and>
   \<not> setEvents_invalid configured_pair [3, 9] [1] \<and>
   conv_below 5 (this_Loc configured_pair) (this_Mod configured_pair) 3 = XAIE_OK \<and>
   conv_below 5 (this_Loc configured_pair) (this_Mod configured_pair) 9 \<noteq> XAIE_OK \<and>
   setEvents (conv_below 5) configured_pair [3, 9] [1] =
     Some (XAIE_INVALID_ARGS, configured_pair\<lparr>vEvents := [3, 2]\<rparr>) \<and>
   getInputEvents (configured_pair\<lparr>vEvents := [3, 2]\<rparr>) [] [] = (XAIE_OK, [3, 2], [0])"
proof -
  let ?L = "this_Loc configured_pair" and ?M = "this_Mod configured_pair"
  have init: "Initialized (this_State configured_pair)"
    by code_simp
  have valid: "\<not> setEvents_invalid configured_pair [3, 9] [1]"
    by code_simp
  have k: "(1::nat) < length [3, 9 :: nat]"
    by simp
  have c0: "conv_below 5 ?L ?M 3 = XAIE_OK"
    by code_simp
  then have before: "\<forall>j<1. conv_below 5 ?L ?M ([3, 9] ! j) = XAIE_OK"
    by simp
  have c1: "conv_below 5 ?L ?M 9 \<noteq> XAIE_OK"
    by code_simp
  then have fail: "conv_below 5 ?L ?M ([3, 9] ! 1) \<noteq> XAIE_OK"
    by simp
  have st: "Configured (this_State configured_pair)" "vEvents configured_pair = [1, 2]"
    "vOps configured_pair = [0]" "conv_below 5 ?L ?M 9 = XAIE_INVALID_ARGS"
    by code_simp+
  from setEvents_translation_failure [where conv = "conv_below 5" and s = configured_pair
      and vE = "[3, 9]" and vOp = "[1]" and k = 1 and outE = "[]" and outOp = "[]"]
    init valid k before fail
  have "setEvents (conv_below 5) configured_pair [3, 9] [1] =
          Some (conv_below 5 ?L ?M ([3, 9] ! 1),
                configured_pair\<lparr>vEvents := take 1 [3, 9] @ drop 1 (vEvents configured_pair)\<rparr>) \<and>
        getInputEvents (configured_pair\<lparr>vEvents := take 1 [3, 9] @ drop 1 (vEvents configured_pair)\<rparr>) [] [] =
          (if Configured (this_State configured_pair)
           then (XAIE_OK, take 1 [3, 9] @ drop 1 (vEvents configured_pair), vOps configured_pair)
           else (XAIE_ERR, [], []))"
    by blast
  with st init valid c0 c1 show ?thesis
    by simp
qed

text \<open>
  Claim C3 as the spec words it (no partial commit of the stored events) fails: on a
  newly built object for two events, a call whose second event is rejected has already
  stored the first one.
\<close>

theorem setEvents_partial_commit:
  "setEvents (conv_below 5) (created XAIE_CORE_MOD 2) [1, 9] [0] =
     Some (XAIE_INVALID_ARGS, (created XAIE_CORE_MOD 2)\<lparr>vEvents := [1, 0]\<rparr>) \<and>
   vEvents (created XAIE_CORE_MOD 2) = [0, 0] \<and>
   vEvents ((created XAIE_CORE_MOD 2)\<lparr>vEvents := [1, 0]\<rparr>) \<noteq> vEvents (created XAIE_CORE_MOD 2)"
  by code_simp

text \<open>
  Claim C2, on the code. The count test of \<open>setEvents\<close> reads the size of the member \<open>vOps\<close>
  where the claim has the size of the argument \<open>vOp\<close>. The constructor leaves \<open>vOps\<close> empty,
  so on the object built for three events a call with three events that all translate and
  two operations returns \<open>XAIE_INVALID_ARGS\<close> and leaves the object as it was; likewise
  for four events and three operations.
\<close>

theorem setEvents_rejects_three_and_four_events:
  "XAieComboEvent_ctor flags_cleared (slot tile_0_1 XAIE_CORE_MOD 0) tile_0_1 XAIE_CORE_MOD 3 =
     Some (created XAIE_CORE_MOD 3) \<and>
   setEvents (conv_below 100) (created XAIE_CORE_MOD 3) [1, 2, 3] [0, 1] =
     Some (XAIE_INVALID_ARGS, created XAIE_CORE_MOD 3) \<and>
   XAieComboEvent_ctor flags_cleared (slot tile_0_1 XAIE_CORE_MOD 0) tile_0_1 XAIE_CORE_MOD 4 =
     Some (created XAIE_CORE_MOD 4) \<and>
   setEvents (conv_below 100) (created XAIE_CORE_MOD 4) [1, 2, 3, 4] [0, 1, 2] =
     Some (XAIE_INVALID_ARGS, created XAIE_CORE_MOD 4)"
  by code_simp

section \<open>Properties of \_reserve and \_start\<close>

text \<open>
  Claim C1, on the code. On a tile with three of its four core slots taken, \<open>_reserve\<close> of
  an object configured for two events acquires the last slot in its first round, fails to
  acquire in the second and releases the first slot again: the bitmap is as before. It
  then returns \<open>XAIE_OK\<close>, and the released slot is still listed in \<open>vRscs\<close>.
\<close>

theorem reserve_failed_acquisition_reports_ok:
  "setEvents (conv_below 100) (created XAIE_CORE_MOD 2) [1, 2] [0] = Some (XAIE_OK, configured_pair) \<and>
   XAieComboEvent_reserve (R_holding (slot tile_0_1 XAIE_CORE_MOD 0))
       (no_bits\<lparr>XAieComboCoreBits := {1, 2, 3}\<rparr>) configured_pair =
     Some (XAIE_OK, no_bits\<lparr>XAieComboCoreBits := {1, 2, 3}\<rparr>,
           configured_pair\<lparr>vRscs := [slot tile_0_1 XAIE_CORE_MOD 0]\<rparr>)"
  by code_simp

text \<open>
  What every object the program builds satisfies: at least two events, at most one stored
  operation, and a stored operation only with two events. (The count test of \<open>setEvents\<close>
  lets no call with more than two events through, see claim C2.)
\<close>

lemma reachable_counts:
  "reachable s \<Longrightarrow>
     2 \<le> length (vEvents s) \<and> length (vOps s) \<le> 1 \<and> (vOps s \<noteq> [] \<longrightarrow> length (vEvents s) = 2)"
proof (induction rule: reachable.induct)
  case (built st0 rsc0 L M ENum s)
  then show ?case
    by (auto simp: XAieComboEvent_ctor_def split: if_splits)
next
  case (configured s conv vE vOp RC s')
  note sh = setEvents_shape [OF configured.hyps(2)]
  show ?case
  proof (cases "vOps s' = vOps s")
    case True
    with sh configured.IH show ?thesis by simp
  next
    case False
    with sh have new: "vOps s' = vOp" and valid: "\<not> setEvents_invalid s vE vOp"
      by auto
    from valid configured.IH have "length vE = length (vEvents s)" "length vE \<le> 2" "length vOp \<le> 1"
      by (auto simp: setEvents_invalid_def)
    with sh new configured.IH show ?thesis by auto
  qed
next
  case (reserved s R0 AieHd RC AieHd' s')
  from reserved.hyps(2) have "vEvents s' = vEvents s \<and> vOps s' = vOps s"
    by (auto simp: XAieComboEvent_reserve_def split: option.splits list.splits)
  with reserved.IH show ?case by simp
next
  case (released s AieHd RC AieHd' s')
  from released.hyps(2) have "vEvents s' = vEvents s \<and> vOps s' = vOps s"
    by (auto simp: XAieComboEvent_release_def)
  with released.IH show ?case by simp
next
  case (base_members s st r vR)
  then show ?case by simp
qed






text \<open>
  Outside the objects the program builds: were four events and three operations stored,
  a failure of the third combiner would return the error with the first two combiners
  programmed and no reset issued.
\<close>

lemma reserved_quad_unreachable: "\<not> reachable reserved_quad"
proof
  assume "reachable reserved_quad"
  from reachable_counts [OF this] have "length (vOps reserved_quad) \<le> 1"
    by simp
  moreover have "length (vOps reserved_quad) = 3"
    by code_simp
  ultimately show False by simp
qed

lemma start_top_level_failure_no_reset:
  "XAieComboEvent_start (cfg_failing_at XAIE_EVENT_COMBO2) rst_recorded reserved_quad [] =
     Some (XAIE_ERR, [ComboConfig XAIE_EVENT_COMBO0 0 10 11, ComboConfig XAIE_EVENT_COMBO1 1 12 13,
                      ComboConfig XAIE_EVENT_COMBO2 2 10 10])"
  by code_simp

section \<open>Properties of the slot allocator\<close>










text \<open>
  Claim C6, on the code. The first test of \<open>XAieAllocRsc\<close> reads the row and the module of
  its output parameter \<open>R\<close>, not of the request \<open>L\<close>, \<open>M\<close>. A request for the interface
  module on a tile of row 1, with an \<open>R\<close> that passes the test, is served: a bit of the
  interface bitmap is set and the call returns \<open>XAIE_OK\<close>. A request for the core module on
  the same tile, with an \<open>R\<close> of row 0, is refused.
\<close>

theorem XAieAllocRsc_test_reads_R:
  "XAieAllocRsc no_bits tile_0_1 XAIE_PL_MOD (slot tile_0_1 XAIE_CORE_MOD 0) =
     Some (XAIE_OK, no_bits\<lparr>XAieComboShimBits := {0}\<rparr>, slot tile_0_1 XAIE_PL_MOD 0) \<and>
   XAieAllocRsc no_bits tile_0_1 XAIE_CORE_MOD (slot \<lparr>Row = 0, Col = 0\<rparr> XAIE_MEM_MOD 0) =
     Some (XAIE_INVALID_ARGS, no_bits, slot \<lparr>Row = 0, Col = 0\<rparr> XAIE_MEM_MOD 0)"
  by code_simp

text \<open>
  Claim C10. A release whose resource pairs row 0 with a module other than the interface,
  or another row with the interface module, returns without clearing a bit: the three
  bitmaps are unchanged.
\<close>

theorem XAieReleaseRsc_mismatch_unchanged:
  assumes "(Row (Loc R) = 0 \<and> Mod R \<noteq> XAIE_PL_MOD) \<or> (Row (Loc R) \<noteq> 0 \<and> Mod R = XAIE_PL_MOD)"
  shows "XAieReleaseRsc Dev R = Dev \<and>
         XAieComboCoreBits (XAieReleaseRsc Dev R) = XAieComboCoreBits Dev \<and>
         XAieComboMemBits (XAieReleaseRsc Dev R) = XAieComboMemBits Dev \<and>
         XAieComboShimBits (XAieReleaseRsc Dev R) = XAieComboShimBits Dev"
proof -
  from assms have "tile_mod_mismatch R"
    by (simp add: tile_mod_mismatch_def)
  then have "XAieReleaseRsc Dev R = Dev"
    by (simp add: XAieReleaseRsc_def)
  then show ?thesis by simp
qed

theorem XAieReleaseRsc_mismatch_unchanged_witness:
  "Row (Loc (slot tile_0_1 XAIE_PL_MOD 0)) \<noteq> 0 \<and> Mod (slot tile_0_1 XAIE_PL_MOD 0) = XAIE_PL_MOD \<and>
   XAieReleaseRsc (no_bits\<lparr>XAieComboShimBits := {0}\<rparr>) (slot tile_0_1 XAIE_PL_MOD 0) =
     no_bits\<lparr>XAieComboShimBits := {0}\<rparr>"
proof -
  have h: "(Row (Loc (slot tile_0_1 XAIE_PL_MOD 0)) = 0 \<and> Mod (slot tile_0_1 XAIE_PL_MOD 0) \<noteq> XAIE_PL_MOD) \<or>
           (Row (Loc (slot tile_0_1 XAIE_PL_MOD 0)) \<noteq> 0 \<and> Mod (slot tile_0_1 XAIE_PL_MOD 0) = XAIE_PL_MOD)"
    by (simp add: slot_def tile_0_1_def)
  from XAieReleaseRsc_mismatch_unchanged [OF h, of "no_bits\<lparr>XAieComboShimBits := {0}\<rparr>"] show ?thesis
    by (simp add: slot_def tile_0_1_def)
qed

end
